theory Spec2Isabelle
  imports Complex_Main "HOL-Library.AList"
begin

section \<open>The persistent store\<close>

text \<open>
  The tables of \<^verbatim>\<open>database-schema.sql\<close> that the game controllers and the socket
  handlers read and write. A UUID is an opaque identifier, modelled as a natural number;
  a table is the list of its rows in insertion order (so \<^verbatim>\<open>order('joined_at')\<close> is
  the table order). Timestamp columns are left out: no handler modelled here reads them.
  The store client is taken to be configured, so the handlers' first check
  (\<^verbatim>\<open>Database not configured\<close>) never answers.
\<close>

type_synonym uuid = nat

datatype status = Waiting | Active | Completed

record quiz_row =
  quiz_id :: uuid
  quiz_creator_id :: uuid
  quiz_title :: string

record question_row =
  question_id :: uuid
  question_quiz_id :: uuid
  question_text :: string
  time_limit :: int
  points :: int
  order_index :: int

record answer_option_row =
  option_id :: uuid
  option_question_id :: uuid
  option_text :: string
  is_correct :: bool
  color :: string

record game_session_row =
  session_id :: uuid
  session_quiz_id :: uuid
  host_id :: uuid
  game_pin :: string
  session_status :: status
  current_question_index :: int

record player_session_row =
  player_id :: uuid
  game_session_id :: uuid
  user_id :: "uuid option"
  nickname :: string
  score :: int

record player_answer_row =
  player_session_id :: uuid
  answer_question_id :: uuid
  answer_option_id :: uuid
  answer_time :: real
  points_earned :: int

text \<open>
  \<^verbatim>\<open>next_uuid\<close> stands for \<^verbatim>\<open>uuid_generate_v4()\<close>: the identifier the next inserted
  row receives. \<^verbatim>\<open>unique_player_per_game\<close> tells whether the migration
  \<^verbatim>\<open>add_unique_player_constraint.sql\<close> (UNIQUE (game_session_id, nickname)) has been
  applied to the store; the base schema does not have it.
\<close>

record database =
  quizzes :: "quiz_row list"
  questions :: "question_row list"
  answer_options :: "answer_option_row list"
  game_sessions :: "game_session_row list"
  player_sessions :: "player_session_row list"
  player_answers :: "player_answer_row list"
  next_uuid :: uuid
  unique_player_per_game :: bool

text \<open>
  The query modifier \<^verbatim>\<open>.single()\<close> of the store client: the data is the row when the
  query yields exactly one row, and null (with an error object) when it yields none or
  several.
\<close>

definition single :: "'a list \<Rightarrow> 'a option" where
  "single rows = (case rows of [r] \<Rightarrow> Some r | _ \<Rightarrow> None)"

datatype storage_error = ForeignKeyViolation | UniqueViolation

text \<open>
  Insert into \<^verbatim>\<open>player_answers\<close>. The table has three foreign keys and no uniqueness
  constraint on (player_session_id, question_id).
\<close>

definition insert_player_answer ::
  "database \<Rightarrow> player_answer_row \<Rightarrow> storage_error + database" where
  "insert_player_answer d a =
     (if player_session_id a \<in> player_id ` set (player_sessions d)
         \<and> answer_question_id a \<in> question_id ` set (questions d)
         \<and> answer_option_id a \<in> option_id ` set (answer_options d)
      then Inr (d\<lparr>player_answers := player_answers d @ [a]\<rparr>)
      else Inl ForeignKeyViolation)"

text \<open>The stored procedure \<^verbatim>\<open>increment_player_score(player_id, points_to_add)\<close>.\<close>

definition increment_player_score :: "database \<Rightarrow> uuid \<Rightarrow> int \<Rightarrow> database" where
  "increment_player_score d pid points_to_add =
     d\<lparr>player_sessions :=
          map (\<lambda>p. if player_id p = pid then p\<lparr>score := score p + points_to_add\<rparr> else p)
            (player_sessions d)\<rparr>"

text \<open>
  Insert into \<^verbatim>\<open>player_sessions\<close> with score 0. The foreign key to the game session
  always holds where the controller inserts (it has just read the session); the
  uniqueness of (game_session_id, nickname) is enforced only when the migration is applied.
\<close>

definition insert_player_session ::
  "database \<Rightarrow> uuid \<Rightarrow> uuid option \<Rightarrow> string \<Rightarrow> storage_error + (player_session_row \<times> database)" where
  "insert_player_session d gid uid nick =
     (if gid \<notin> session_id ` set (game_sessions d) then Inl ForeignKeyViolation
      else if unique_player_per_game d
              \<and> (\<exists>p \<in> set (player_sessions d). game_session_id p = gid \<and> nickname p = nick)
      then Inl UniqueViolation
      else let row = \<lparr>player_id = next_uuid d, game_session_id = gid, user_id = uid,
                       nickname = nick, score = 0\<rparr>
           in Inr (row, d\<lparr>player_sessions := player_sessions d @ [row],
                           next_uuid := Suc (next_uuid d)\<rparr>))"


text \<open>The rows \<^verbatim>\<open>id, nickname, score\<close> of the players of a session.\<close>

type_synonym player_view = "uuid \<times> string \<times> int"

definition player_view_of :: "player_session_row \<Rightarrow> player_view" where
  "player_view_of p = (player_id p, nickname p, score p)"

definition players_of :: "database \<Rightarrow> uuid \<Rightarrow> player_session_row list" where
  "players_of d gid = filter (\<lambda>p. game_session_id p = gid) (player_sessions d)"

text \<open>\<^verbatim>\<open>.order('score', { ascending: false })\<close>; rows of equal score stay in table order.\<close>

definition players_by_score :: "database \<Rightarrow> uuid \<Rightarrow> player_view list" where
  "players_by_score d gid = map player_view_of (sort_key (\<lambda>p. - score p) (players_of d gid))"

text \<open>
  The nested selection \<^verbatim>\<open>quizzes (questions (id, question_text, time_limit, points,
  order_index, answer_options (id, option_text, color)))\<close>: the column
  \<^verbatim>\<open>is_correct\<close> is not selected.
\<close>

record option_view =
  ov_id :: uuid
  ov_option_text :: string
  ov_color :: string

record question_view =
  qv_id :: uuid
  qv_question_text :: string
  qv_time_limit :: int
  qv_points :: int
  qv_order_index :: int
  qv_answer_options :: "option_view list"

definition select_option :: "answer_option_row \<Rightarrow> option_view" where
  "select_option opt = \<lparr>ov_id = option_id opt, ov_option_text = option_text opt, ov_color = color opt\<rparr>"

definition select_question :: "database \<Rightarrow> question_row \<Rightarrow> question_view" where
  "select_question d q =
     \<lparr>qv_id = question_id q, qv_question_text = question_text q, qv_time_limit = time_limit q,
      qv_points = points q, qv_order_index = order_index q,
      qv_answer_options =
        map select_option (filter (\<lambda>opt. option_question_id opt = question_id q) (answer_options d))\<rparr>"

definition session_by_pin :: "database \<Rightarrow> string \<Rightarrow> game_session_row option" where
  "session_by_pin d pin = single (filter (\<lambda>g. game_pin g = pin) (game_sessions d))"

text \<open>
  \<^verbatim>\<open>gameSession.quizzes?.questions || []\<close> followed by the sort on
  \<^verbatim>\<open>order_index\<close> (a stable sort).
\<close>

definition session_questions :: "database \<Rightarrow> game_session_row \<Rightarrow> question_view list" where
  "session_questions d g =
     (if session_quiz_id g \<in> quiz_id ` set (quizzes d)
      then sort_key qv_order_index
             (map (select_question d) (filter (\<lambda>q. question_quiz_id q = session_quiz_id g) (questions d)))
      else [])"

section \<open>Scoring\<close>

text \<open>
  \<^verbatim>\<open>Math.round\<close> rounds to the nearest integer, halves upwards. The answer time is a
  JavaScript number; it is modelled as a real, so the rounding error of the double
  arithmetic is not part of the model.
\<close>

definition Math_round :: "real \<Rightarrow> int" where
  "Math_round x = \<lfloor>x + 1 / 2\<rfloor>"

text \<open>The point calculation of the \<^verbatim>\<open>submit-answer\<close> handler.\<close>

definition answer_points :: "bool \<Rightarrow> real \<Rightarrow> int" where
  "answer_points correct answerTime =
     (let maxPoints = 1000;
          timeBonus = max 0 (1 - answerTime / 30)
      in if correct then Math_round (maxPoints * timeBonus) else 0)"

section \<open>Live game state and events\<close>

text \<open>
  One entry of the in-memory map \<^verbatim>\<open>gameStates\<close>. The field \<^verbatim>\<open>timer\<close> holds the
  delay in milliseconds of the pending timeout whose callback is
  \<^verbatim>\<open>progressToNextQuestion\<close>, if one is armed. The question index starts at 0 and is
  only ever incremented, so it is a natural number.
\<close>

record game_state =
  players :: "uuid list"
  answeredPlayers :: "uuid list"
  currentQuestionId :: uuid
  currentQuestionIndex :: nat
  totalQuestions :: nat
  questionStartTime :: int
  gameSessionId :: uuid
  timer :: "int option"

text \<open>
  What the process keeps: the store, the live games by game PIN and the join
  deduplication cache \<^verbatim>\<open>recentJoinRequests\<close> (request key to time of the last request).
\<close>

record world =
  db :: database
  gameStates :: "(string \<times> game_state) list"
  recentJoinRequests :: "(string \<times> int) list"

datatype event =
    AnswerError string
  | SocketError string
  | ScoreUpdated string "player_view list" uuid int bool
  | AnswerResult bool int uuid
  | GameStarted string question_view nat nat
  | NextQuestion string question_view nat nat
  | GameEnded string "player_view list"

section \<open>Socket handlers\<close>

text \<open>\<^verbatim>\<open>startQuestionTimer\<close>: replaces the pending timeout of the game, if the game is live.\<close>

definition startQuestionTimer :: "world \<Rightarrow> string \<Rightarrow> int \<Rightarrow> world" where
  "startQuestionTimer w gamePin timeLimit =
     (case map_of (gameStates w) gamePin of
        None \<Rightarrow> w
      | Some gameState \<Rightarrow>
          let timerDuration = (timeLimit + 2) * 1000
          in w\<lparr>gameStates := AList.update gamePin (gameState\<lparr>timer := Some timerDuration\<rparr>) (gameStates w)\<rparr>)"

text \<open>\<^verbatim>\<open>questionForClient\<close>, as both the start and the progression handler build it.\<close>

definition questionForClient :: "question_view \<Rightarrow> question_view" where
  "questionForClient q =
     q\<lparr>qv_answer_options :=
         map (\<lambda>opt. \<lparr>ov_id = ov_id opt, ov_option_text = ov_option_text opt, ov_color = ov_color opt\<rparr>)
           (qv_answer_options q)\<rparr>"

text \<open>The handler of \<^verbatim>\<open>start-game\<close>; \<^verbatim>\<open>now\<close> is the value of \<^verbatim>\<open>Date.now()\<close>.\<close>

definition start_game :: "world \<Rightarrow> string \<Rightarrow> int \<Rightarrow> world \<times> event list" where
  "start_game w gamePin now =
     (case session_by_pin (db w) gamePin of
        None \<Rightarrow> (w, [SocketError ''Game not found''])
      | Some gameSession \<Rightarrow>
          (case session_questions (db w) gameSession of
             [] \<Rightarrow> (w, [SocketError ''No questions found in quiz''])
           | firstQuestion # rest \<Rightarrow>
               let questionsLength = length (firstQuestion # rest);
                   playerIds = remdups (map player_id (players_of (db w) (session_id gameSession)));
                   w1 = w\<lparr>gameStates := AList.update gamePin
                           \<lparr>players = playerIds, answeredPlayers = [],
                            currentQuestionId = qv_id firstQuestion, currentQuestionIndex = 0,
                            totalQuestions = questionsLength, questionStartTime = now,
                            gameSessionId = session_id gameSession, timer = None\<rparr>
                           (gameStates w)\<rparr>
               in (startQuestionTimer w1 gamePin (qv_time_limit firstQuestion),
                   [GameStarted gamePin (questionForClient firstQuestion) 1 questionsLength])))"

text \<open>
  \<^verbatim>\<open>checkAndProgressGame\<close>: when every player of the live game has an answer row for
  the current question, the pending timeout is replaced by one of three seconds.
\<close>

definition checkAndProgressGame :: "world \<Rightarrow> string \<Rightarrow> uuid \<Rightarrow> world" where
  "checkAndProgressGame w gamePin questionId =
     (case map_of (gameStates w) gamePin of
        None \<Rightarrow> w
      | Some gameState \<Rightarrow>
          if currentQuestionId gameState \<noteq> questionId then w
          else
            let answeredPlayerIds =
                  map player_session_id
                    (filter (\<lambda>a. answer_question_id a = questionId) (player_answers (db w)));
                allPlayersAnswered =
                  (length (players gameState) > 0
                   \<and> list_all (\<lambda>playerId. playerId \<in> set answeredPlayerIds) (players gameState))
            in if allPlayersAnswered
               then w\<lparr>gameStates := AList.update gamePin (gameState\<lparr>timer := Some 3000\<rparr>) (gameStates w)\<rparr>
               else w)"

text \<open>The payload of \<^verbatim>\<open>submit-answer\<close>.\<close>

record submit_data =
  answerId :: uuid
  questionId :: uuid
  answerTime :: real
  playerId :: uuid

text \<open>
  The player row joined with its game session
  (\<^verbatim>\<open>game_sessions!inner(game_pin)\<close>): the PIN and the session id of the player.
\<close>

definition player_with_game :: "database \<Rightarrow> uuid \<Rightarrow> (string \<times> uuid) option" where
  "player_with_game d pid =
     (case single (filter (\<lambda>p. player_id p = pid) (player_sessions d)) of
        None \<Rightarrow> None
      | Some p \<Rightarrow>
          (case single (filter (\<lambda>g. session_id g = game_session_id p) (game_sessions d)) of
             None \<Rightarrow> None
           | Some g \<Rightarrow> Some (game_pin g, game_session_id p)))"

text \<open>The row that the handler hands to the insert into \<^verbatim>\<open>player_answers\<close>.\<close>

definition answer_row :: "submit_data \<Rightarrow> int \<Rightarrow> player_answer_row" where
  "answer_row dat pts =
     \<lparr>player_session_id = playerId dat, answer_question_id = questionId dat,
      answer_option_id = answerId dat, answer_time = answerTime dat, points_earned = pts\<rparr>"

text \<open>
  The handler of \<^verbatim>\<open>submit-answer\<close>. The store client reports a failed insert in
  \<^verbatim>\<open>answerError\<close>; the handler logs it and goes on.
\<close>

definition submit_answer :: "world \<Rightarrow> submit_data \<Rightarrow> world \<times> event list" where
  "submit_answer w dat =
     (case single (filter (\<lambda>opt. option_id opt = answerId dat) (answer_options (db w))) of
        None \<Rightarrow> (w, [AnswerError ''Invalid answer''])
      | Some answerOption \<Rightarrow>
          let pts = answer_points (is_correct answerOption) (answerTime dat);
              d1 = (case insert_player_answer (db w) (answer_row dat pts) of
                      Inl answerError \<Rightarrow> db w
                    | Inr d' \<Rightarrow> d');
              d2 = (if pts > 0 then increment_player_score d1 (playerId dat) pts else d1);
              w2 = w\<lparr>db := d2\<rparr>;
              answerResult = AnswerResult (is_correct answerOption) pts (answerId dat)
          in (case player_with_game d2 (playerId dat) of
                None \<Rightarrow> (w2, [answerResult])
              | Some (gamePin, gid) \<Rightarrow>
                  (checkAndProgressGame w2 gamePin (questionId dat),
                   [ScoreUpdated gamePin (players_by_score d2 gid) (playerId dat) pts
                      (is_correct answerOption),
                    answerResult])))"

text \<open>
  \<^verbatim>\<open>progressToNextQuestion\<close>, called by the timeouts and by the handler of
  \<^verbatim>\<open>next-question\<close> (the host's manual override). Its only arguments are the socket
  server and the game PIN.
\<close>

definition update_session_by_pin ::
  "database \<Rightarrow> string \<Rightarrow> (game_session_row \<Rightarrow> game_session_row) \<Rightarrow> database" where
  "update_session_by_pin d pin f =
     d\<lparr>game_sessions := map (\<lambda>g. if game_pin g = pin then f g else g) (game_sessions d)\<rparr>"

definition progressToNextQuestion :: "world \<Rightarrow> string \<Rightarrow> int \<Rightarrow> world \<times> event list" where
  "progressToNextQuestion w gamePin now =
     (case map_of (gameStates w) gamePin of
        None \<Rightarrow> (w, [])
      | Some gameState \<Rightarrow>
          let nextIndex = currentQuestionIndex gameState + 1
          in (case session_by_pin (db w) gamePin of
                None \<Rightarrow> (w, [])
              | Some gameSession \<Rightarrow>
                  let qs = session_questions (db w) gameSession
                  in if nextIndex \<ge> length qs
                     then
                       let finalScores = players_by_score (db w) (session_id gameSession);
                           d1 = update_session_by_pin (db w) gamePin (\<lambda>g. g\<lparr>session_status := Completed\<rparr>)
                       in (w\<lparr>db := d1, gameStates := AList.delete gamePin (gameStates w)\<rparr>,
                           [GameEnded gamePin finalScores])
                     else
                       let d1 = update_session_by_pin (db w) gamePin
                                  (\<lambda>g. g\<lparr>current_question_index := int nextIndex\<rparr>);
                           nextQuestion = qs ! nextIndex;
                           gameState1 = gameState\<lparr>currentQuestionId := qv_id nextQuestion,
                                                  currentQuestionIndex := nextIndex,
                                                  answeredPlayers := [],
                                                  questionStartTime := now\<rparr>;
                           w1 = w\<lparr>db := d1, gameStates := AList.update gamePin gameState1 (gameStates w)\<rparr>
                       in (startQuestionTimer w1 gamePin (qv_time_limit nextQuestion),
                           [NextQuestion gamePin (questionForClient nextQuestion) (nextIndex + 1)
                              (length qs)])))"

section \<open>Joining a game\<close>

text \<open>
  The body of a join request and \<^verbatim>\<open>joinGameSchema\<close>: a PIN of six decimal digits and a
  nickname of 2 to 20 characters. The optional user id is a UUID by its type.
\<close>

record join_body =
  req_gamePin :: string
  req_nickname :: string
  req_userId :: "uuid option"

definition joinGameSchema :: "join_body \<Rightarrow> bool" where
  "joinGameSchema b =
     (length (req_gamePin b) = 6 \<and> list_all (\<lambda>c. c \<in> set ''0123456789'') (req_gamePin b)
      \<and> 2 \<le> length (req_nickname b) \<and> length (req_nickname b) \<le> 20)"

definition DEDUP_TIMEOUT :: int where
  "DEDUP_TIMEOUT = 1000"

text \<open>
  The responses of \<^verbatim>\<open>joinGame\<close>: 201 with the new player row and the roster, or an
  error: 400 from the schema, 429 \<^verbatim>\<open>Request too frequent\<close>, 404
  \<^verbatim>\<open>Game not found or already started\<close>, 400 \<^verbatim>\<open>Nickname already taken in this game\<close>,
  500 \<^verbatim>\<open>Failed to join game\<close>.
\<close>

datatype join_error = ValidationError | TooFrequent | GameNotFound | NicknameTaken | JoinFailed

datatype join_result = Joined player_session_row "player_view list" | JoinRejected join_error

definition requestKey :: "join_body \<Rightarrow> string" where
  "requestKey b = req_gamePin b @ ''-'' @ req_nickname b"

definition waiting_session_by_pin :: "database \<Rightarrow> string \<Rightarrow> game_session_row option" where
  "waiting_session_by_pin d pin =
     single (filter (\<lambda>g. game_pin g = pin \<and> session_status g = Waiting) (game_sessions d))"

definition existing_player :: "database \<Rightarrow> uuid \<Rightarrow> string \<Rightarrow> player_session_row option" where
  "existing_player d gid nick =
     single (filter (\<lambda>p. game_session_id p = gid \<and> nickname p = nick) (player_sessions d))"

text \<open>
  The deduplication block at the head of \<^verbatim>\<open>joinGame\<close>: \<^verbatim>\<open>None\<close> when the request is
  blocked, otherwise the cache with this request recorded and the entries older than
  the timeout removed.
\<close>

definition dedup_check :: "(string \<times> int) list \<Rightarrow> string \<Rightarrow> int \<Rightarrow> (string \<times> int) list option" where
  "dedup_check cache key now =
     (case map_of cache key of
        Some lastRequest \<Rightarrow>
          if now - lastRequest < DEDUP_TIMEOUT then None
          else Some (filter (\<lambda>(k, timestamp). \<not> now - timestamp > DEDUP_TIMEOUT)
                       (AList.update key now cache))
      | None \<Rightarrow>
          Some (filter (\<lambda>(k, timestamp). \<not> now - timestamp > DEDUP_TIMEOUT)
                  (AList.update key now cache)))"

text \<open>\<^verbatim>\<open>Map.prototype.clear\<close>: removes every entry.\<close>

definition Map_clear :: "('k \<times> 'v) list \<Rightarrow> ('k \<times> 'v) list" where
  "Map_clear m = []"

text \<open>
  \<^verbatim>\<open>joinGame\<close> run from the request to the response with nothing in between;
  \<^verbatim>\<open>now\<close> is the value of \<^verbatim>\<open>Date.now()\<close> in milliseconds.
\<close>

definition joinGame :: "world \<Rightarrow> join_body \<Rightarrow> int \<Rightarrow> join_result \<times> world" where
  "joinGame w b now =
     (if \<not> joinGameSchema b then (JoinRejected ValidationError, w)
      else
        (case dedup_check (recentJoinRequests w) (requestKey b) now of
           None \<Rightarrow> (JoinRejected TooFrequent, w)
         | Some cache \<Rightarrow>
             let w1 = w\<lparr>recentJoinRequests := cache\<rparr>
             in (case waiting_session_by_pin (db w1) (req_gamePin b) of
                   None \<Rightarrow> (JoinRejected GameNotFound, w1)
                 | Some gameSession \<Rightarrow>
                     (case existing_player (db w1) (session_id gameSession) (req_nickname b) of
                        Some existingPlayer \<Rightarrow> (JoinRejected NicknameTaken, w1)
                      | None \<Rightarrow>
                          (case insert_player_session (db w1) (session_id gameSession)
                                  (req_userId b) (req_nickname b) of
                             Inl playerError \<Rightarrow> (JoinRejected JoinFailed, w1)
                           | Inr (playerSession, d2) \<Rightarrow>
                               let roster = map player_view_of (players_of d2 (session_id gameSession))
                               in (Joined playerSession roster,
                                   w1\<lparr>db := d2,
                                      recentJoinRequests :=
                                        Map_clear (AList.delete (requestKey b) (recentJoinRequests w1))\<rparr>))))))"

text \<open>
  \<^verbatim>\<open>joinGame\<close> is an async function: it runs without interruption from one
  \<^verbatim>\<open>await\<close> to the next, and other requests run while it waits for the store. A request
  in flight is at one of these points: before the deduplication block, before each of
  the four store calls, or answered.
\<close>

datatype join_pc =
    AtDedup
  | AtFindSession
  | AtCheckNickname game_session_row
  | AtInsert game_session_row
  | AtListPlayers game_session_row player_session_row
  | Responded join_result

fun join_step :: "join_body \<Rightarrow> int \<Rightarrow> join_pc \<Rightarrow> world \<Rightarrow> join_pc \<times> world" where
  "join_step b now AtDedup w =
     (if \<not> joinGameSchema b then (Responded (JoinRejected ValidationError), w)
      else (case dedup_check (recentJoinRequests w) (requestKey b) now of
              None \<Rightarrow> (Responded (JoinRejected TooFrequent), w)
            | Some cache \<Rightarrow> (AtFindSession, w\<lparr>recentJoinRequests := cache\<rparr>)))"
| "join_step b now AtFindSession w =
     (case waiting_session_by_pin (db w) (req_gamePin b) of
        None \<Rightarrow> (Responded (JoinRejected GameNotFound), w)
      | Some gameSession \<Rightarrow> (AtCheckNickname gameSession, w))"
| "join_step b now (AtCheckNickname gameSession) w =
     (case existing_player (db w) (session_id gameSession) (req_nickname b) of
        Some existingPlayer \<Rightarrow> (Responded (JoinRejected NicknameTaken), w)
      | None \<Rightarrow> (AtInsert gameSession, w))"
| "join_step b now (AtInsert gameSession) w =
     (case insert_player_session (db w) (session_id gameSession) (req_userId b) (req_nickname b) of
        Inl playerError \<Rightarrow> (Responded (JoinRejected JoinFailed), w)
      | Inr (playerSession, d2) \<Rightarrow> (AtListPlayers gameSession playerSession, w\<lparr>db := d2\<rparr>))"
| "join_step b now (AtListPlayers gameSession playerSession) w =
     (let roster = map player_view_of (players_of (db w) (session_id gameSession))
      in (Responded (Joined playerSession roster),
          w\<lparr>recentJoinRequests := Map_clear (AList.delete (requestKey b) (recentJoinRequests w))\<rparr>))"
| "join_step b now (Responded r) w = (Responded r, w)"

text \<open>
  Several requests in flight: each request comes with its arrival time, and a schedule
  names, step by step, the request that runs to its next \<^verbatim>\<open>await\<close>.
\<close>

fun run_schedule ::
  "(join_body \<times> int) list \<Rightarrow> nat list \<Rightarrow> join_pc list \<times> world \<Rightarrow> join_pc list \<times> world" where
  "run_schedule reqs [] c = c"
| "run_schedule reqs (i # sched) (pcs, w) =
     (if i < length reqs \<and> i < length pcs
      then (case join_step (fst (reqs ! i)) (snd (reqs ! i)) (pcs ! i) w of
              (pc', w') \<Rightarrow> run_schedule reqs sched (pcs[i := pc'], w'))
      else run_schedule reqs sched (pcs, w))"

definition concurrent_joins ::
  "world \<Rightarrow> (join_body \<times> int) list \<Rightarrow> nat list \<Rightarrow> join_pc list \<times> world" where
  "concurrent_joins w reqs sched = run_schedule reqs sched (replicate (length reqs) AtDedup, w)"

section \<open>Creating a game session\<close>










section \<open>Notions used in the statements\<close>


text \<open>The store with the correctness flag of every answer option replaced.\<close>

definition reflag :: "(answer_option_row \<Rightarrow> bool) \<Rightarrow> database \<Rightarrow> database" where
  "reflag f d = d\<lparr>answer_options := map (\<lambda>opt. opt\<lparr>is_correct := f opt\<rparr>) (answer_options d)\<rparr>"


text \<open>
  Requests handled one after the other, each from the request to the response: the
  state they leave, and whether none of them joins.
\<close>

fun is_joined :: "join_result \<Rightarrow> bool" where
  "is_joined (Joined p roster) = True"
| "is_joined (JoinRejected e) = False"

fun join_all :: "world \<Rightarrow> (join_body \<times> int) list \<Rightarrow> world" where
  "join_all w [] = w"
| "join_all w ((b, now) # rs) = join_all (snd (joinGame w b now)) rs"

fun none_joined :: "world \<Rightarrow> (join_body \<times> int) list \<Rightarrow> bool" where
  "none_joined w [] = True"
| "none_joined w ((b, now) # rs) =
     (\<not> is_joined (fst (joinGame w b now)) \<and> none_joined (snd (joinGame w b now)) rs)"


section \<open>Example states\<close>

text \<open>
  A quiz of three questions owned by host 7, played in session 50 under the PIN 123456
  by Ana (player 1) and Beto (player 2).
\<close>

definition demo_db :: database where
  "demo_db =
     \<lparr>quizzes = [\<lparr>quiz_id = 1, quiz_creator_id = 7, quiz_title = ''Demo''\<rparr>],
      questions =
        [\<lparr>question_id = 10, question_quiz_id = 1, question_text = ''Q1'', time_limit = 20,
          points = 1000, order_index = 0\<rparr>,
         \<lparr>question_id = 11, question_quiz_id = 1, question_text = ''Q2'', time_limit = 20,
          points = 1000, order_index = 1\<rparr>,
         \<lparr>question_id = 12, question_quiz_id = 1, question_text = ''Q3'', time_limit = 20,
          points = 1000, order_index = 2\<rparr>],
      answer_options =
        [\<lparr>option_id = 100, option_question_id = 10, option_text = ''yes'', is_correct = True,
          color = ''red''\<rparr>,
         \<lparr>option_id = 101, option_question_id = 10, option_text = ''no'', is_correct = False,
          color = ''blue''\<rparr>,
         \<lparr>option_id = 110, option_question_id = 11, option_text = ''yes'', is_correct = False,
          color = ''red''\<rparr>,
         \<lparr>option_id = 111, option_question_id = 11, option_text = ''no'', is_correct = True,
          color = ''blue''\<rparr>],
      game_sessions =
        [\<lparr>session_id = 50, session_quiz_id = 1, host_id = 7, game_pin = ''123456'',
          session_status = Active, current_question_index = 0\<rparr>],
      player_sessions =
        [\<lparr>player_id = 1, game_session_id = 50, user_id = None, nickname = ''Ana'', score = 0\<rparr>,
         \<lparr>player_id = 2, game_session_id = 50, user_id = None, nickname = ''Beto'', score = 0\<rparr>],
      player_answers = [],
      next_uuid = 200,
      unique_player_per_game = False\<rparr>"

definition demo_world :: world where
  "demo_world = \<lparr>db = demo_db, gameStates = [], recentJoinRequests = []\<rparr>"

text \<open>The game started at time 0: question 10 is current, the timer runs for 22 seconds.\<close>

definition demo_live :: world where
  "demo_live =
     \<lparr>db = demo_db,
      gameStates =
        [(''123456'',
          \<lparr>players = [1, 2], answeredPlayers = [], currentQuestionId = 10,
           currentQuestionIndex = 0, totalQuestions = 3, questionStartTime = 0,
           gameSessionId = 50, timer = Some 22000\<rparr>)],
      recentJoinRequests = []\<rparr>"

text \<open>Ana's correct answer to question 10, given at once.\<close>

definition ana_q1 :: submit_data where
  "ana_q1 = \<lparr>answerId = 100, questionId = 10, answerTime = 0, playerId = 1\<rparr>"



text \<open>
  The lobby: two sessions wait for players under the PINs 123456 and 654321, nobody has
  joined yet.
\<close>

definition lobby_db :: database where
  "lobby_db =
     demo_db\<lparr>game_sessions :=
               [\<lparr>session_id = 50, session_quiz_id = 1, host_id = 7, game_pin = ''123456'',
                 session_status = Waiting, current_question_index = 0\<rparr>,
                \<lparr>session_id = 51, session_quiz_id = 1, host_id = 7, game_pin = ''654321'',
                 session_status = Waiting, current_question_index = 0\<rparr>],
             player_sessions := []\<rparr>"

definition lobby_world :: world where
  "lobby_world = \<lparr>db = lobby_db, gameStates = [], recentJoinRequests = []\<rparr>"

text \<open>The lobby with a player named Carlos in session 50.\<close>

definition lobby_with_carlos :: world where
  "lobby_with_carlos =
     lobby_world\<lparr>db := lobby_db\<lparr>player_sessions :=
       [\<lparr>player_id = 150, game_session_id = 50, user_id = None, nickname = ''Carlos'',
         score = 0\<rparr>]\<rparr>\<rparr>"

definition carlos :: join_body where
  "carlos = \<lparr>req_gamePin = ''123456'', req_nickname = ''Carlos'', req_userId = None\<rparr>"

definition dana :: join_body where
  "dana = \<lparr>req_gamePin = ''123456'', req_nickname = ''Dana'', req_userId = None\<rparr>"

definition zoe :: join_body where
  "zoe = \<lparr>req_gamePin = ''654321'', req_nickname = ''Zoe'', req_userId = None\<rparr>"



section \<open>Scoring and answer submission\<close>




















subsection \<open>C5: the points of an answer\<close>




subsection \<open>C2: a second answer to the same question\<close>




subsection \<open>C3: an answer to a question that is no longer current\<close>




subsection \<open>C6: a failed insert of the answer\<close>

text \<open>
  Claim C6 at a submission whose insert fails. The payload names a question that does
  not exist, so the insert into the stored answers violates a foreign key; the handler
  logs the error and goes on. No answer is stored, and Ana's score still goes from 0 to
  1000: the room and the submitter are told so.
\<close>

theorem failed_insert_still_scores:
  "insert_player_answer (db demo_live) (answer_row (ana_q1\<lparr>questionId := 999\<rparr>) 1000)
     = Inl ForeignKeyViolation
   \<and> player_answers (db (fst (submit_answer demo_live (ana_q1\<lparr>questionId := 999\<rparr>)))) = []
   \<and> map score (player_sessions (db demo_live)) = [0, 0]
   \<and> map score (player_sessions (db (fst (submit_answer demo_live (ana_q1\<lparr>questionId := 999\<rparr>)))))
       = [1000, 0]
   \<and> snd (submit_answer demo_live (ana_q1\<lparr>questionId := 999\<rparr>))
       = [ScoreUpdated ''123456'' [(1, ''Ana'', 1000), (2, ''Beto'', 0)] 1 1000 True,
          AnswerResult True 1000 100]"
  by (simp add: demo_db_def demo_live_def ana_q1_def checkAndProgressGame_def answer_row_def
      submit_answer_def answer_points_def Math_round_def single_def insert_player_answer_def
      increment_player_score_def player_view_of_def players_of_def players_by_score_def
      player_with_game_def Let_def)


section \<open>Progression\<close>








subsection \<open>C4: two calls of the progression\<close>




section \<open>Questions sent to the players\<close>

lemma select_question_reflag: "select_question (reflag f d) = select_question d"
proof (rule ext)
  fix q :: question_row
  have "map select_option
          (filter (\<lambda>opt. option_question_id opt = question_id q)
             (map (\<lambda>opt. opt\<lparr>is_correct := f opt\<rparr>) (answer_options d)))
        = map select_option (filter (\<lambda>opt. option_question_id opt = question_id q) (answer_options d))"
    by (induction "answer_options d" arbitrary: d) (simp_all add: select_option_def filter_map comp_def)
  then show "select_question (reflag f d) q = select_question d q"
    by (simp add: select_question_def reflag_def)
qed

lemma session_questions_reflag: "session_questions (reflag f d) g = session_questions d g"
  by (simp add: session_questions_def select_question_reflag) (simp add: reflag_def)

lemma session_by_pin_reflag: "session_by_pin (reflag f d) pin = session_by_pin d pin"
  by (simp add: session_by_pin_def reflag_def)

lemma players_by_score_reflag: "players_by_score (reflag f d) gid = players_by_score d gid"
  by (simp add: players_by_score_def players_of_def reflag_def)

subsection \<open>C7: the correctness flag is not sent\<close>

text \<open>
  Claim C7. The options of a question sent to the players are of a type with three
  fields: id, option text and color. The events that the start of the game and every
  progression emit are the same whatever the correctness flags in the store are: with
  the flags replaced in any way, both handlers emit the same events.
\<close>

theorem question_events_ignore_correct_flag:
  "snd (start_game (w\<lparr>db := reflag f (db w)\<rparr>) gamePin now) = snd (start_game w gamePin now)
   \<and> snd (progressToNextQuestion (w\<lparr>db := reflag f (db w)\<rparr>) gamePin now)
       = snd (progressToNextQuestion w gamePin now)"
proof
  show "snd (start_game (w\<lparr>db := reflag f (db w)\<rparr>) gamePin now) = snd (start_game w gamePin now)"
    by (simp add: start_game_def session_by_pin_reflag session_questions_reflag Let_def
        split: option.splits list.splits)
  show "snd (progressToNextQuestion (w\<lparr>db := reflag f (db w)\<rparr>) gamePin now)
       = snd (progressToNextQuestion w gamePin now)"
    by (simp add: progressToNextQuestion_def session_by_pin_reflag session_questions_reflag
        players_by_score_reflag Let_def split: option.splits)
qed

text \<open>
  The theorem at the example game with every flag inverted: the first question and the
  second question go out with the same payload as with the true flags.
\<close>

theorem question_events_ignore_correct_flag_witness:
  "snd (start_game (demo_world\<lparr>db := reflag (\<lambda>opt. \<not> is_correct opt) (db demo_world)\<rparr>) ''123456'' 0)
     = [GameStarted ''123456''
          \<lparr>qv_id = 10, qv_question_text = ''Q1'', qv_time_limit = 20, qv_points = 1000,
           qv_order_index = 0,
           qv_answer_options = [\<lparr>ov_id = 100, ov_option_text = ''yes'', ov_color = ''red''\<rparr>,
                                \<lparr>ov_id = 101, ov_option_text = ''no'', ov_color = ''blue''\<rparr>]\<rparr> 1 3]
   \<and> snd (start_game demo_world ''123456'' 0)
     = [GameStarted ''123456''
          \<lparr>qv_id = 10, qv_question_text = ''Q1'', qv_time_limit = 20, qv_points = 1000,
           qv_order_index = 0,
           qv_answer_options = [\<lparr>ov_id = 100, ov_option_text = ''yes'', ov_color = ''red''\<rparr>,
                                \<lparr>ov_id = 101, ov_option_text = ''no'', ov_color = ''blue''\<rparr>]\<rparr> 1 3]
   \<and> snd (progressToNextQuestion (demo_live\<lparr>db := reflag (\<lambda>opt. \<not> is_correct opt) (db demo_live)\<rparr>)
            ''123456'' 5000)
     = snd (progressToNextQuestion demo_live ''123456'' 5000)"
  using question_events_ignore_correct_flag [where w = demo_world
      and f = "\<lambda>opt. \<not> is_correct opt" and gamePin = "''123456''" and now = 0]
    question_events_ignore_correct_flag [where w = demo_live
      and f = "\<lambda>opt. \<not> is_correct opt" and gamePin = "''123456''" and now = 5000]
  by (simp add: demo_db_def demo_world_def demo_live_def startQuestionTimer_def
      questionForClient_def start_game_def progressToNextQuestion_def single_def
      player_view_of_def players_of_def players_by_score_def select_option_def
      select_question_def session_by_pin_def session_questions_def update_session_by_pin_def
      Let_def)


section \<open>Joining\<close>

lemma dedup_check_blocked:
  "map_of cache key = Some lastRequest \<Longrightarrow> now - lastRequest < DEDUP_TIMEOUT \<Longrightarrow>
   dedup_check cache key now = None"
  by (simp add: dedup_check_def)

lemma dedup_check_empty: "dedup_check [] key now \<noteq> None"
  by (simp add: dedup_check_def)

text \<open>A request that passes the deduplication block is in the cache with its own time.\<close>

lemma dedup_check_records:
  assumes "dedup_check cache key now = Some cache'"
  shows "map_of cache' key = Some now"
proof -
  have c: "cache' = filter (\<lambda>(k, timestamp). \<not> now - timestamp > DEDUP_TIMEOUT)
                      (AList.update key now cache)"
    using assms by (simp add: dedup_check_def split: option.splits if_splits)
  have "map_of (AList.update key now cache) key = Some now"
    by (simp add: update_conv')
  moreover have "\<not> now - now > DEDUP_TIMEOUT" by (simp add: DEDUP_TIMEOUT_def)
  ultimately show ?thesis
    unfolding c by (simp add: map_of_filter_in)
qed

lemma joinGame_blocked:
  "joinGameSchema b \<Longrightarrow> map_of (recentJoinRequests w) (requestKey b) = Some lastRequest \<Longrightarrow>
   now - lastRequest < DEDUP_TIMEOUT \<Longrightarrow> joinGame w b now = (JoinRejected TooFrequent, w)"
  by (simp add: joinGame_def dedup_check_blocked)

lemma joinGame_too_frequent_iff:
  "fst (joinGame w b now) = JoinRejected TooFrequent
   \<longleftrightarrow> joinGameSchema b \<and> dedup_check (recentJoinRequests w) (requestKey b) now = None"
  by (auto simp add: joinGame_def Let_def split: option.splits sum.splits prod.splits)

lemma joinGame_joined_cache:
  "fst (joinGame w b now) = Joined p roster \<Longrightarrow> recentJoinRequests (snd (joinGame w b now)) = []"
  by (auto simp add: joinGame_def Let_def Map_clear_def
      split: option.splits sum.splits prod.splits if_splits)

lemma joinGame_failed_cache:
  "fst (joinGame w b now) \<in> {JoinRejected GameNotFound, JoinRejected NicknameTaken, JoinRejected JoinFailed}
   \<Longrightarrow> map_of (recentJoinRequests (snd (joinGame w b now))) (requestKey b) = Some now"
  by (auto simp add: joinGame_def Let_def dedup_check_records
      split: option.splits sum.splits prod.splits if_splits)

lemma joinGame_after_join_not_blocked:
  "fst (joinGame w b now) = Joined p roster \<Longrightarrow>
   fst (joinGame (snd (joinGame w b now)) b' now') \<noteq> JoinRejected TooFrequent"
  by (simp add: joinGame_too_frequent_iff joinGame_joined_cache dedup_check_empty)

text \<open>
  A single request scheduled five times in a row, with nothing in between, is
  \<^verbatim>\<open>joinGame\<close> run from the request to the response.
\<close>

lemma single_request_schedule:
  "concurrent_joins w [(b, now)] [0, 0, 0, 0, 0]
     = ([Responded (fst (joinGame w b now))], snd (joinGame w b now))"
  by (simp add: concurrent_joins_def joinGame_def Let_def
      split: option.splits sum.splits prod.splits)

text \<open>
  A request that does not join leaves the entry of every other key in the cache, as
  long as the entry is not older than the window; its own entry gets its own time.
\<close>

lemma dedup_check_keeps:
  assumes "dedup_check cache k now = Some cache'"
    and "map_of cache key = Some t"
    and "\<not> now - t > DEDUP_TIMEOUT"
  shows "map_of cache' key = Some (if k = key then now else t)"
proof -
  have c: "cache' = filter (\<lambda>(k, timestamp). \<not> now - timestamp > DEDUP_TIMEOUT)
                      (AList.update k now cache)"
    using assms(1) by (simp add: dedup_check_def split: option.splits if_splits)
  have "map_of (AList.update k now cache) key = Some (if k = key then now else t)"
    using assms(2) by (simp add: update_conv')
  moreover have "\<not> now - (if k = key then now else t) > DEDUP_TIMEOUT"
    using assms(3) by (simp add: DEDUP_TIMEOUT_def)
  ultimately show ?thesis
    unfolding c by (simp add: map_of_filter_in)
qed

lemma joinGame_not_joined_cache:
  "\<not> is_joined (fst (joinGame w b now)) \<Longrightarrow>
   recentJoinRequests (snd (joinGame w b now)) = recentJoinRequests w
   \<or> dedup_check (recentJoinRequests w) (requestKey b) now
       = Some (recentJoinRequests (snd (joinGame w b now)))"
  by (auto simp add: joinGame_def Let_def split: option.splits sum.splits prod.splits if_splits)

lemma joinGame_not_joined_entry:
  assumes "\<not> is_joined (fst (joinGame w b now))"
    and "map_of (recentJoinRequests w) key = Some t"
    and "\<not> now - t > DEDUP_TIMEOUT"
  shows "map_of (recentJoinRequests (snd (joinGame w b now))) key
           = Some (if requestKey b = key
                      \<and> recentJoinRequests (snd (joinGame w b now)) \<noteq> recentJoinRequests w
                   then now else t)"
proof (cases "recentJoinRequests (snd (joinGame w b now)) = recentJoinRequests w")
  case True
  then show ?thesis using assms(2) by simp
next
  case False
  with joinGame_not_joined_cache [OF assms(1)]
  have "dedup_check (recentJoinRequests w) (requestKey b) now
          = Some (recentJoinRequests (snd (joinGame w b now)))"
    by simp
  from dedup_check_keeps [OF this assms(2) assms(3)] False show ?thesis by simp
qed

lemma join_all_keeps_entry:
  "map_of (recentJoinRequests w) key = Some t \<Longrightarrow> t0 \<le> t \<Longrightarrow> t1 - t0 < DEDUP_TIMEOUT \<Longrightarrow>
   none_joined w rs \<Longrightarrow> list_all (\<lambda>(bi, ti). t0 \<le> ti \<and> ti \<le> t1) rs \<Longrightarrow>
   \<exists>t'. map_of (recentJoinRequests (join_all w rs)) key = Some t' \<and> t0 \<le> t'"
proof (induction rs arbitrary: w t)
  case Nil
  then show ?case by simp
next
  case (Cons r rs)
  obtain b now where r: "r = (b, now)" by (cases r)
  from Cons.prems r have nj: "\<not> is_joined (fst (joinGame w b now))"
    and rest: "none_joined (snd (joinGame w b now)) rs"
    and times: "t0 \<le> now" "now \<le> t1"
    and later: "list_all (\<lambda>(bi, ti). t0 \<le> ti \<and> ti \<le> t1) rs"
    by simp_all
  from times Cons.prems(2,3) have fresh: "\<not> now - t > DEDUP_TIMEOUT" by linarith
  let ?t = "if requestKey b = key
               \<and> recentJoinRequests (snd (joinGame w b now)) \<noteq> recentJoinRequests w
            then now else t"
  have entry: "map_of (recentJoinRequests (snd (joinGame w b now))) key = Some ?t"
    using nj Cons.prems(1) fresh by (rule joinGame_not_joined_entry)
  have "t0 \<le> ?t" using times Cons.prems(2) by simp
  from Cons.IH [OF entry this Cons.prems(3) rest later] show ?case
    by (simp add: r)
qed

subsection \<open>C8: the deduplication window\<close>

text \<open>
  Claim C8, as the code has it. The window is 1000 milliseconds. A well-formed request
  whose (PIN, nickname) key is in the cache with a time less than the window ago is
  answered with \<^verbatim>\<open>TooFrequent\<close> and changes nothing. The entry of a request that was
  recorded and then failed (game not found, nickname taken, insert failed) stays in the
  cache as long as no request joins: after any requests that are handled in between
  and do not join, a request with the same key that comes less than the window after
  the recorded one is answered with \<^verbatim>\<open>TooFrequent\<close>. After a request that joined, its
  key is not in the cache, and the next request with the same key, whenever it comes,
  is not answered with \<^verbatim>\<open>TooFrequent\<close>.
\<close>

theorem join_dedup_window:
  "DEDUP_TIMEOUT = 1000
   \<and> (joinGameSchema b \<and> map_of (recentJoinRequests w) (requestKey b) = Some lastRequest
        \<and> now - lastRequest < DEDUP_TIMEOUT
      \<longrightarrow> joinGame w b now = (JoinRejected TooFrequent, w))
   \<and> (fst (joinGame w b t0)
          \<in> {JoinRejected GameNotFound, JoinRejected NicknameTaken, JoinRejected JoinFailed}
        \<and> none_joined (snd (joinGame w b t0)) rs
        \<and> list_all (\<lambda>(bi, ti). t0 \<le> ti \<and> ti \<le> t1) rs
        \<and> joinGameSchema b' \<and> requestKey b' = requestKey b \<and> t1 - t0 < DEDUP_TIMEOUT
      \<longrightarrow> fst (joinGame (join_all (snd (joinGame w b t0)) rs) b' t1) = JoinRejected TooFrequent)
   \<and> (fst (joinGame w b t0) = Joined p roster \<and> requestKey b' = requestKey b
      \<longrightarrow> map_of (recentJoinRequests (snd (joinGame w b t0))) (requestKey b) = None
          \<and> fst (joinGame (snd (joinGame w b t0)) b' t1) \<noteq> JoinRejected TooFrequent)"
proof (intro conjI impI)
  show "DEDUP_TIMEOUT = 1000" by (simp add: DEDUP_TIMEOUT_def)
next
  assume "joinGameSchema b \<and> map_of (recentJoinRequests w) (requestKey b) = Some lastRequest
          \<and> now - lastRequest < DEDUP_TIMEOUT"
  then show "joinGame w b now = (JoinRejected TooFrequent, w)"
    by (simp add: joinGame_blocked)
next
  assume a: "fst (joinGame w b t0)
               \<in> {JoinRejected GameNotFound, JoinRejected NicknameTaken, JoinRejected JoinFailed}
             \<and> none_joined (snd (joinGame w b t0)) rs
             \<and> list_all (\<lambda>(bi, ti). t0 \<le> ti \<and> ti \<le> t1) rs
             \<and> joinGameSchema b' \<and> requestKey b' = requestKey b \<and> t1 - t0 < DEDUP_TIMEOUT"
  then have recorded: "map_of (recentJoinRequests (snd (joinGame w b t0))) (requestKey b) = Some t0"
    by (intro joinGame_failed_cache) simp
  from a have nj: "none_joined (snd (joinGame w b t0)) rs"
    and times: "list_all (\<lambda>(bi, ti). t0 \<le> ti \<and> ti \<le> t1) rs"
    and s: "joinGameSchema b'" and k: "requestKey b' = requestKey b"
    and window: "t1 - t0 < DEDUP_TIMEOUT"
    by simp_all
  from join_all_keeps_entry [OF recorded order_refl window nj times]
  obtain t' where t': "map_of (recentJoinRequests (join_all (snd (joinGame w b t0)) rs)) (requestKey b)
                         = Some t'" "t0 \<le> t'"
    by blast
  from t'(1) k have m: "map_of (recentJoinRequests (join_all (snd (joinGame w b t0)) rs)) (requestKey b')
                         = Some t'"
    by simp
  from t'(2) window have "t1 - t' < DEDUP_TIMEOUT" by linarith
  with s m show "fst (joinGame (join_all (snd (joinGame w b t0)) rs) b' t1) = JoinRejected TooFrequent"
    by (simp add: joinGame_blocked)
next
  assume a: "fst (joinGame w b t0) = Joined p roster \<and> requestKey b' = requestKey b"
  then show "map_of (recentJoinRequests (snd (joinGame w b t0))) (requestKey b) = None"
    by (simp add: joinGame_joined_cache)
  from a show "fst (joinGame (snd (joinGame w b t0)) b' t1) \<noteq> JoinRejected TooFrequent"
    by (simp add: joinGame_after_join_not_blocked)
qed

text \<open>
  The theorem at requests for the nickname Carlos. In the lobby where the nickname is
  taken: a request 999 milliseconds after a recorded one; a request at 0 that is
  answered with \<^verbatim>\<open>NicknameTaken\<close>, then Zoe's request at 100 for a PIN without a game,
  then the request for Carlos again at 200. In the empty lobby: a request that joins at
  0 and the same request again at 1.
\<close>

theorem join_dedup_window_witness:
  "joinGame (lobby_with_carlos\<lparr>recentJoinRequests := [(''123456-Carlos'', 0)]\<rparr>) carlos 999
     = (JoinRejected TooFrequent, lobby_with_carlos\<lparr>recentJoinRequests := [(''123456-Carlos'', 0)]\<rparr>)
   \<and> fst (joinGame lobby_with_carlos carlos 0) = JoinRejected NicknameTaken
   \<and> none_joined (snd (joinGame lobby_with_carlos carlos 0)) [(zoe\<lparr>req_gamePin := ''999999''\<rparr>, 100)]
   \<and> fst (joinGame (join_all (snd (joinGame lobby_with_carlos carlos 0))
                      [(zoe\<lparr>req_gamePin := ''999999''\<rparr>, 100)])
            carlos 200) = JoinRejected TooFrequent
   \<and> fst (joinGame lobby_world carlos 0)
       = Joined \<lparr>player_id = 200, game_session_id = 50, user_id = None, nickname = ''Carlos'',
                 score = 0\<rparr> [(200, ''Carlos'', 0)]
   \<and> map_of (recentJoinRequests (snd (joinGame lobby_world carlos 0))) (requestKey carlos) = None
   \<and> fst (joinGame (snd (joinGame lobby_world carlos 0)) carlos 1) \<noteq> JoinRejected TooFrequent"
proof -
  have recorded:
    "joinGame (lobby_with_carlos\<lparr>recentJoinRequests := [(''123456-Carlos'', 0)]\<rparr>) carlos 999
       = (JoinRejected TooFrequent, lobby_with_carlos\<lparr>recentJoinRequests := [(''123456-Carlos'', 0)]\<rparr>)"
    by (rule join_dedup_window [where lastRequest = 0, THEN conjunct2, THEN conjunct1, THEN mp])
      (simp add: demo_db_def lobby_db_def lobby_world_def lobby_with_carlos_def carlos_def
          zoe_def joinGameSchema_def DEDUP_TIMEOUT_def requestKey_def dedup_check_def
          Map_clear_def joinGame_def)
  have taken: "fst (joinGame lobby_with_carlos carlos 0) = JoinRejected NicknameTaken"
    by (simp add: demo_db_def lobby_db_def lobby_world_def lobby_with_carlos_def carlos_def
        zoe_def joinGameSchema_def DEDUP_TIMEOUT_def requestKey_def dedup_check_def
        Map_clear_def joinGame_def single_def insert_player_session_def player_view_of_def
        players_of_def waiting_session_by_pin_def existing_player_def Let_def)
  have after_taken:
    "snd (joinGame lobby_with_carlos carlos 0)
       = lobby_with_carlos\<lparr>recentJoinRequests := [(''123456-Carlos'', 0)]\<rparr>"
    by (simp add: demo_db_def lobby_db_def lobby_world_def lobby_with_carlos_def carlos_def
        zoe_def joinGameSchema_def DEDUP_TIMEOUT_def requestKey_def dedup_check_def
        Map_clear_def joinGame_def single_def insert_player_session_def player_view_of_def
        players_of_def waiting_session_by_pin_def existing_player_def Let_def)
  have between:
    "none_joined (snd (joinGame lobby_with_carlos carlos 0)) [(zoe\<lparr>req_gamePin := ''999999''\<rparr>, 100)]"
    unfolding after_taken by (simp add: demo_db_def lobby_db_def lobby_world_def
        lobby_with_carlos_def carlos_def zoe_def joinGameSchema_def DEDUP_TIMEOUT_def
        requestKey_def dedup_check_def Map_clear_def joinGame_def single_def
        insert_player_session_def player_view_of_def players_of_def waiting_session_by_pin_def
        existing_player_def Let_def)
  have hyps:
    "fst (joinGame lobby_with_carlos carlos 0)
       \<in> {JoinRejected GameNotFound, JoinRejected NicknameTaken, JoinRejected JoinFailed}
     \<and> none_joined (snd (joinGame lobby_with_carlos carlos 0)) [(zoe\<lparr>req_gamePin := ''999999''\<rparr>, 100)]
     \<and> list_all (\<lambda>(bi, ti). (0::int) \<le> ti \<and> ti \<le> 200) [(zoe\<lparr>req_gamePin := ''999999''\<rparr>, 100)]
     \<and> joinGameSchema carlos \<and> requestKey carlos = requestKey carlos \<and> 200 - 0 < DEDUP_TIMEOUT"
  proof (intro conjI)
    show "fst (joinGame lobby_with_carlos carlos 0)
            \<in> {JoinRejected GameNotFound, JoinRejected NicknameTaken, JoinRejected JoinFailed}"
      by (simp add: taken)
    show "none_joined (snd (joinGame lobby_with_carlos carlos 0))
            [(zoe\<lparr>req_gamePin := ''999999''\<rparr>, 100)]"
      by (rule between)
  qed (simp_all add: demo_db_def lobby_db_def lobby_world_def lobby_with_carlos_def carlos_def
      zoe_def joinGameSchema_def DEDUP_TIMEOUT_def requestKey_def dedup_check_def Map_clear_def
      joinGame_def)
  have repeated:
    "fst (joinGame (join_all (snd (joinGame lobby_with_carlos carlos 0))
                      [(zoe\<lparr>req_gamePin := ''999999''\<rparr>, 100)])
            carlos 200) = JoinRejected TooFrequent"
    using hyps
    by (rule join_dedup_window [THEN conjunct2, THEN conjunct2, THEN conjunct1, THEN mp])
  have joined:
    "fst (joinGame lobby_world carlos 0)
       = Joined \<lparr>player_id = 200, game_session_id = 50, user_id = None, nickname = ''Carlos'',
                 score = 0\<rparr> [(200, ''Carlos'', 0)]"
    by (simp add: demo_db_def lobby_db_def lobby_world_def lobby_with_carlos_def carlos_def
        zoe_def joinGameSchema_def DEDUP_TIMEOUT_def requestKey_def dedup_check_def
        Map_clear_def joinGame_def single_def insert_player_session_def player_view_of_def
        players_of_def waiting_session_by_pin_def existing_player_def Let_def)
  have cleared:
    "map_of (recentJoinRequests (snd (joinGame lobby_world carlos 0))) (requestKey carlos) = None
     \<and> fst (joinGame (snd (joinGame lobby_world carlos 0)) carlos 1) \<noteq> JoinRejected TooFrequent"
    by (rule join_dedup_window [THEN conjunct2, THEN conjunct2, THEN conjunct2, THEN mp])
      (simp add: joined)
  show ?thesis
    using recorded taken between repeated joined cleared by blast
qed

text \<open>
  C8 as stated, for every repeated request in the window, fails: in the lobby where the
  nickname Carlos is taken, a request for Carlos at 0 is recorded and answered with
  \<^verbatim>\<open>NicknameTaken\<close>; Dana joins at 100, which empties the cache; the request for Carlos
  at 200, well within the window, is answered with \<^verbatim>\<open>NicknameTaken\<close> again, not with
  \<^verbatim>\<open>TooFrequent\<close>.
\<close>

theorem dedup_reset_by_other_join:
  "joinGame lobby_with_carlos carlos 0
     = (JoinRejected NicknameTaken, lobby_with_carlos\<lparr>recentJoinRequests := [(''123456-Carlos'', 0)]\<rparr>)
   \<and> fst (joinGame (lobby_with_carlos\<lparr>recentJoinRequests := [(''123456-Carlos'', 0)]\<rparr>) dana 100)
       = Joined \<lparr>player_id = 200, game_session_id = 50, user_id = None, nickname = ''Dana'',
                 score = 0\<rparr> [(150, ''Carlos'', 0), (200, ''Dana'', 0)]
   \<and> recentJoinRequests
        (snd (joinGame (lobby_with_carlos\<lparr>recentJoinRequests := [(''123456-Carlos'', 0)]\<rparr>) dana 100))
       = []
   \<and> fst (joinGame
            (snd (joinGame (lobby_with_carlos\<lparr>recentJoinRequests := [(''123456-Carlos'', 0)]\<rparr>) dana 100))
            carlos 200)
       = JoinRejected NicknameTaken"
  by (simp add: demo_db_def lobby_db_def lobby_world_def lobby_with_carlos_def carlos_def
      dana_def joinGameSchema_def DEDUP_TIMEOUT_def requestKey_def dedup_check_def Map_clear_def
      joinGame_def single_def insert_player_session_def player_view_of_def players_of_def
      waiting_session_by_pin_def existing_player_def Let_def)

subsection \<open>C10: a successful join empties the cache\<close>

text \<open>
  Claim C10. When a request joins, the whole cache is emptied, not only the entry of
  the request: the cache of the resulting state has no entry at all, so the next request
  of any nickname for any PIN, whenever it comes, is not answered with
  \<^verbatim>\<open>TooFrequent\<close>. The same holds for a request in flight: the step that answers with
  the success leaves the cache empty.
\<close>

theorem join_success_clears_cache:
  "(fst (joinGame w b now) = Joined p roster
      \<longrightarrow> recentJoinRequests (snd (joinGame w b now)) = []
          \<and> fst (joinGame (snd (joinGame w b now)) b' now') \<noteq> JoinRejected TooFrequent)
   \<and> recentJoinRequests (snd (join_step b now (AtListPlayers gameSession playerSession) w)) = []"
  by (simp add: joinGame_joined_cache joinGame_after_join_not_blocked Map_clear_def Let_def)

text \<open>
  The theorem at a cache that holds Zoe's request of 990 for the PIN 654321 and Dana's
  request of 995 for the PIN 123456. At 1001 Zoe's repeated request would be answered
  with \<^verbatim>\<open>TooFrequent\<close>; after Carlos has joined the other game at 1000 the cache is
  empty and Zoe's request at 1001 joins.
\<close>

theorem join_success_clears_cache_witness:
  "fst (joinGame (lobby_world\<lparr>recentJoinRequests := [(''654321-Zoe'', 990), (''123456-Dana'', 995)]\<rparr>)
          zoe 1001) = JoinRejected TooFrequent
   \<and> fst (joinGame (lobby_world\<lparr>recentJoinRequests := [(''654321-Zoe'', 990), (''123456-Dana'', 995)]\<rparr>)
          carlos 1000)
       = Joined \<lparr>player_id = 200, game_session_id = 50, user_id = None, nickname = ''Carlos'',
                 score = 0\<rparr> [(200, ''Carlos'', 0)]
   \<and> recentJoinRequests
        (snd (joinGame (lobby_world\<lparr>recentJoinRequests := [(''654321-Zoe'', 990), (''123456-Dana'', 995)]\<rparr>)
                carlos 1000)) = []
   \<and> fst (joinGame
            (snd (joinGame (lobby_world\<lparr>recentJoinRequests := [(''654321-Zoe'', 990), (''123456-Dana'', 995)]\<rparr>)
                    carlos 1000))
            zoe 1001)
       = Joined \<lparr>player_id = 201, game_session_id = 51, user_id = None, nickname = ''Zoe'',
                 score = 0\<rparr> [(201, ''Zoe'', 0)]"
proof -
  let ?w = "lobby_world\<lparr>recentJoinRequests := [(''654321-Zoe'', 990), (''123456-Dana'', 995)]\<rparr>"
  have blocked: "fst (joinGame ?w zoe 1001) = JoinRejected TooFrequent"
    by (simp add: demo_db_def lobby_db_def lobby_world_def carlos_def zoe_def joinGameSchema_def
        DEDUP_TIMEOUT_def requestKey_def dedup_check_def Map_clear_def joinGame_def single_def
        insert_player_session_def player_view_of_def players_of_def waiting_session_by_pin_def
        existing_player_def Let_def)
  have joined:
    "fst (joinGame ?w carlos 1000)
       = Joined \<lparr>player_id = 200, game_session_id = 50, user_id = None, nickname = ''Carlos'',
                 score = 0\<rparr> [(200, ''Carlos'', 0)]"
    by (simp add: demo_db_def lobby_db_def lobby_world_def carlos_def zoe_def joinGameSchema_def
        DEDUP_TIMEOUT_def requestKey_def dedup_check_def Map_clear_def joinGame_def single_def
        insert_player_session_def player_view_of_def players_of_def waiting_session_by_pin_def
        existing_player_def Let_def)
  have cleared: "recentJoinRequests (snd (joinGame ?w carlos 1000)) = []
                 \<and> fst (joinGame (snd (joinGame ?w carlos 1000)) zoe 1001) \<noteq> JoinRejected TooFrequent"
    by (rule join_success_clears_cache [THEN conjunct1, THEN mp]) (rule joined)
  have zoe_joins:
    "fst (joinGame (snd (joinGame ?w carlos 1000)) zoe 1001)
       = Joined \<lparr>player_id = 201, game_session_id = 51, user_id = None, nickname = ''Zoe'',
                 score = 0\<rparr> [(201, ''Zoe'', 0)]"
    by (simp add: demo_db_def lobby_db_def lobby_world_def carlos_def zoe_def joinGameSchema_def
        DEDUP_TIMEOUT_def requestKey_def dedup_check_def Map_clear_def joinGame_def single_def
        insert_player_session_def player_view_of_def players_of_def waiting_session_by_pin_def
        existing_player_def Let_def)
  show ?thesis
    using blocked joined cleared zoe_joins by blast
qed

subsection \<open>C1: requests for the same nickname in flight together\<close>

text \<open>
  Claim C1 at three requests for the PIN 123456 that are in flight together: Dana's
  at 0 milliseconds, and two for the nickname Carlos at 10 and at 12. The first request
  for Carlos passes the deduplication block and waits for the store; Dana's request
  completes and empties the cache; the second request for Carlos then passes the
  deduplication block too. Both look for the nickname before either has inserted it.
  On the base schema both are answered with the success and the roster holds two
  players named Carlos. With the uniqueness constraint of the migration applied, the
  store refuses the second insert and the second request is answered with the error 500
  \<^verbatim>\<open>Failed to join game\<close>, which is neither \<^verbatim>\<open>NicknameTaken\<close> nor
  \<^verbatim>\<open>TooFrequent\<close>. The emptied cache is not needed for the duplicate: two requests for
  Carlos that are 1000 milliseconds apart, the first still waiting for the store when
  the second arrives, both join as well.
\<close>

theorem concurrent_joins_duplicate:
  "concurrent_joins lobby_world [(dana, 0), (carlos, 10), (carlos, 12)]
         [0, 1, 0, 0, 0, 0, 2, 1, 2, 1, 2, 1, 2, 1, 2]
   = ([Responded (Joined \<lparr>player_id = 200, game_session_id = 50, user_id = None,
                           nickname = ''Dana'', score = 0\<rparr> [(200, ''Dana'', 0)]),
       Responded (Joined \<lparr>player_id = 201, game_session_id = 50, user_id = None,
                           nickname = ''Carlos'', score = 0\<rparr>
                    [(200, ''Dana'', 0), (201, ''Carlos'', 0), (202, ''Carlos'', 0)]),
       Responded (Joined \<lparr>player_id = 202, game_session_id = 50, user_id = None,
                           nickname = ''Carlos'', score = 0\<rparr>
                    [(200, ''Dana'', 0), (201, ''Carlos'', 0), (202, ''Carlos'', 0)])],
      lobby_world\<lparr>db := lobby_db\<lparr>player_sessions :=
          [\<lparr>player_id = 200, game_session_id = 50, user_id = None, nickname = ''Dana'', score = 0\<rparr>,
           \<lparr>player_id = 201, game_session_id = 50, user_id = None, nickname = ''Carlos'', score = 0\<rparr>,
           \<lparr>player_id = 202, game_session_id = 50, user_id = None, nickname = ''Carlos'', score = 0\<rparr>],
          next_uuid := 203\<rparr>\<rparr>)
   \<and> fst (concurrent_joins (lobby_world\<lparr>db := lobby_db\<lparr>unique_player_per_game := True\<rparr>\<rparr>)
            [(dana, 0), (carlos, 10), (carlos, 12)]
            [0, 1, 0, 0, 0, 0, 2, 1, 2, 1, 2, 1, 2, 1, 2])
     = [Responded (Joined \<lparr>player_id = 200, game_session_id = 50, user_id = None,
                           nickname = ''Dana'', score = 0\<rparr> [(200, ''Dana'', 0)]),
        Responded (Joined \<lparr>player_id = 201, game_session_id = 50, user_id = None,
                           nickname = ''Carlos'', score = 0\<rparr>
                    [(200, ''Dana'', 0), (201, ''Carlos'', 0)]),
        Responded (JoinRejected JoinFailed)]
   \<and> fst (concurrent_joins lobby_world [(carlos, 0), (carlos, 1000)] [0, 1, 0, 1, 0, 1, 0, 1, 0, 1])
     = [Responded (Joined \<lparr>player_id = 200, game_session_id = 50, user_id = None,
                           nickname = ''Carlos'', score = 0\<rparr>
                    [(200, ''Carlos'', 0), (201, ''Carlos'', 0)]),
        Responded (Joined \<lparr>player_id = 201, game_session_id = 50, user_id = None,
                           nickname = ''Carlos'', score = 0\<rparr>
                    [(200, ''Carlos'', 0), (201, ''Carlos'', 0)])]"
  by (simp add: demo_db_def lobby_db_def lobby_world_def carlos_def dana_def joinGameSchema_def
      DEDUP_TIMEOUT_def requestKey_def dedup_check_def Map_clear_def concurrent_joins_def
      single_def insert_player_session_def player_view_of_def players_of_def
      waiting_session_by_pin_def existing_player_def Let_def)


section \<open>Creating a session\<close>













subsection \<open>C9: the game PIN of a new session\<close>





end
